theory Spec2Isabelle
  imports Main "HOL-Library.Word"
begin

section \<open>The namespaced Redis cache client (redis.go)\<close>

subsection \<open>Values of the driver and of the standard library\<close>

text \<open>
  \<^verbatim>\<open>time.Duration\<close> is a signed 64-bit count of nanoseconds. A word carries the bits;
  \<open>sint\<close> reads the sign.
\<close>

type_synonym Duration = "64 word"

definition Hour :: Duration where
  "Hour = 3600000000000"

text \<open>
  An error returned by the driver. The driver's sentinel \<^verbatim>\<open>redis.Nil\<close> is a single
  value that \<^verbatim>\<open>Get\<close> compares with \<^verbatim>\<open>==\<close>; every other error is kept by its message.
\<close>

datatype driver_error = redis_Nil | Failure string

text \<open>
  Modelled from the spec: the constructors \<^verbatim>\<open>NewInvalidExpiry\<close>, \<^verbatim>\<open>NewSetError\<close>,
  \<^verbatim>\<open>NewKeyNotFound\<close> and \<^verbatim>\<open>NewGetError\<close> and the error types they build are declared
  in another file of the package. The spec gives four error kinds: InvalidExpiry carries
  nothing, SetError and GetError carry the namespaced key and the underlying cause,
  KeyNotFound carries the namespaced key.
\<close>

datatype cache_error =
    InvalidExpiry
  | SetError string driver_error
  | KeyNotFound string
  | GetError string driver_error

definition NewInvalidExpiry :: cache_error where
  "NewInvalidExpiry = InvalidExpiry"

definition NewSetError :: "string \<Rightarrow> driver_error \<Rightarrow> cache_error" where
  "NewSetError key err = SetError key err"

definition NewKeyNotFound :: "string \<Rightarrow> cache_error" where
  "NewKeyNotFound key = KeyNotFound key"

definition NewGetError :: "string \<Rightarrow> driver_error \<Rightarrow> cache_error" where
  "NewGetError key err = GetError key err"

subsection \<open>The backend interface and its observable calls\<close>

text \<open>
  \<^verbatim>\<open>redisClient\<close> is the interface the store calls: \<^verbatim>\<open>Set\<close> and \<^verbatim>\<open>Get\<close>. An
  implementation is any pair of functions over a backend state \<open>'b\<close>. The field
  \<open>client_Set\<close> stands for \<^verbatim>\<open>Set(...).Err()\<close>: the error of the status command, or
  none. The field \<open>client_Get\<close> stands for \<^verbatim>\<open>Get(...).Result()\<close>: the pair of value and
  error. The context \<open>'ctx\<close> is passed through untouched.
\<close>

record ('ctx, 'b) redisClient =
  client_Set :: "'ctx \<Rightarrow> string \<Rightarrow> string \<Rightarrow> Duration \<Rightarrow> 'b \<Rightarrow> driver_error option \<times> 'b"
  client_Get :: "'ctx \<Rightarrow> string \<Rightarrow> 'b \<Rightarrow> (string \<times> driver_error option) \<times> 'b"

text \<open>
  Every call that reaches the backend is recorded with its arguments, in order, so that
  a statement can say which calls an operation made and with which key.
\<close>

datatype 'ctx backend_call =
    SET 'ctx string string Duration
  | GET 'ctx string

record ('ctx, 'b) world =
  calls :: "'ctx backend_call list"
  backend :: 'b

definition invoke_Set ::
  "('ctx, 'b) redisClient \<Rightarrow> 'ctx \<Rightarrow> string \<Rightarrow> string \<Rightarrow> Duration \<Rightarrow> ('ctx, 'b) world
     \<Rightarrow> driver_error option \<times> ('ctx, 'b) world" where
  "invoke_Set c ctx key val expiry w =
     (case client_Set c ctx key val expiry (backend w) of
        (err, b') \<Rightarrow> (err, \<lparr>calls = calls w @ [SET ctx key val expiry], backend = b'\<rparr>))"

definition invoke_Get ::
  "('ctx, 'b) redisClient \<Rightarrow> 'ctx \<Rightarrow> string \<Rightarrow> ('ctx, 'b) world
     \<Rightarrow> (string \<times> driver_error option) \<times> ('ctx, 'b) world" where
  "invoke_Get c ctx key w =
     (case client_Get c ctx key (backend w) of
        (res, b') \<Rightarrow> (res, \<lparr>calls = calls w @ [GET ctx key], backend = b'\<rparr>))"

subsection \<open>Options and configuration\<close>

record redisOptions =
  namespace :: string
  clusterMode :: bool
  enableTLS :: bool

text \<open>The three implementations of the interface \<^verbatim>\<open>RedisOption\<close>.\<close>

datatype RedisOption =
    redisNamespace string
  | redisClusterMode bool
  | redisTLS bool

fun apply_RedisOption :: "RedisOption \<Rightarrow> redisOptions \<Rightarrow> redisOptions" where
  "apply_RedisOption (redisNamespace r) options = options\<lparr>namespace := r\<rparr>"
| "apply_RedisOption (redisClusterMode r) options = options\<lparr>clusterMode := r\<rparr>"
| "apply_RedisOption (redisTLS r) options = options\<lparr>enableTLS := r\<rparr>"

definition WithRedisNamespace :: "string \<Rightarrow> RedisOption" where
  "WithRedisNamespace ns = redisNamespace ns"

definition WithRedisClusterMode :: RedisOption where
  "WithRedisClusterMode = redisClusterMode True"

definition WithRedisTLS :: RedisOption where
  "WithRedisTLS = redisTLS True"

record RedisConfig =
  Address :: string
  Password :: string
  Namespace :: string
  DisableClusterMode :: bool
  DisableTLS :: bool

text \<open>The method \<^verbatim>\<open>(c *RedisConfig) options()\<close>: three appends, in the source's order.\<close>

definition config_options :: "RedisConfig \<Rightarrow> RedisOption list" where
  "config_options c =
     (let options = [];
          options = (if Namespace c \<noteq> [] then options @ [WithRedisNamespace (Namespace c)]
                     else options);
          options = (if \<not> DisableClusterMode c then options @ [WithRedisClusterMode]
                     else options);
          options = (if \<not> DisableTLS c then options @ [WithRedisTLS] else options)
      in options)"

subsection \<open>The store and its two operations\<close>

record 'c RedisStore =
  client :: 'c
  store_namespace :: string

definition namespaceSeparator :: string where
  "namespaceSeparator = '':''"

definition namespaceKey :: "'c RedisStore \<Rightarrow> string \<Rightarrow> string" where
  "namespaceKey s key =
     (if store_namespace s \<noteq> [] then store_namespace s @ namespaceSeparator @ key
      else key)"

definition Set ::
  "(('ctx, 'b) redisClient) RedisStore \<Rightarrow> 'ctx \<Rightarrow> string \<Rightarrow> string \<Rightarrow> Duration
     \<Rightarrow> ('ctx, 'b) world \<Rightarrow> cache_error option \<times> ('ctx, 'b) world" where
  "Set s ctx key val expiry w =
     (if expiry = 0 then (Some NewInvalidExpiry, w)
      else
        (let key = namespaceKey s key in
         case invoke_Set (client s) ctx key val expiry w of
           (Some err, w') \<Rightarrow> (Some (NewSetError key err), w')
         | (None, w') \<Rightarrow> (None, w')))"

definition Get ::
  "(('ctx, 'b) redisClient) RedisStore \<Rightarrow> 'ctx \<Rightarrow> string
     \<Rightarrow> ('ctx, 'b) world \<Rightarrow> (string \<times> cache_error option) \<times> ('ctx, 'b) world" where
  "Get s ctx key w =
     (let key = namespaceKey s key in
      case invoke_Get (client s) ctx key w of
        ((val, Some err), w') \<Rightarrow>
          (if err = redis_Nil then (([], Some (NewKeyNotFound key)), w')
           else (([], Some (NewGetError key err)), w'))
      | ((val, None), w') \<Rightarrow> ((val, None), w'))"

text \<open>
  The record field \<open>store_namespace\<close> is the field \<^verbatim>\<open>namespace\<close> of \<^verbatim>\<open>RedisStore\<close>
  (the name \<open>namespace\<close> is the field of \<open>redisOptions\<close> here), and \<open>config_options\<close>
  is the method \<^verbatim>\<open>options\<close> of \<^verbatim>\<open>RedisConfig\<close>.
\<close>

subsection \<open>Construction\<close>

text \<open>
  What the constructor hands to the driver. Of \<^verbatim>\<open>tls.Config\<close>, \<^verbatim>\<open>redis.Options\<close> and
  \<^verbatim>\<open>redis.ClusterOptions\<close> only the fields the constructor can set apart from their zero
  value are kept, together with the TLS field of \<^verbatim>\<open>redis.Options\<close>, which the
  single-node branch leaves at its zero value \<^verbatim>\<open>nil\<close>.
\<close>

definition VersionTLS12 :: "16 word" where
  "VersionTLS12 = 0x0303"

record tls_Config =
  MinVersion :: "16 word"

record ClusterOptions =
  Addrs :: "string list"
  ClusterOptions_Password :: string
  ClusterOptions_TLSConfig :: "tls_Config option"

record Options =
  Addr :: string
  Options_Password :: string
  DB :: int
  Options_TLSConfig :: "tls_Config option"

text \<open>
  \<^verbatim>\<open>redis.UniversalClient\<close>, as far as the constructor builds it: the result of
  \<^verbatim>\<open>redis.NewClusterClient\<close> or of \<^verbatim>\<open>redis.NewClient\<close>, with the options it was given.
\<close>

datatype UniversalClient =
    NewClusterClient ClusterOptions
  | NewClient Options

text \<open>
  The two instrumentation functions of the tracing package are outside this
  repository: they are parameters. Each returns an error message or none.
\<close>

record redisotel =
  InstrumentTracing :: "UniversalClient \<Rightarrow> string option"
  InstrumentMetrics :: "UniversalClient \<Rightarrow> string option"

datatype panic = Panic string

text \<open>The loop of \<^verbatim>\<open>NewRedisStore\<close> over its options, first to last.\<close>

fun apply_all :: "RedisOption list \<Rightarrow> redisOptions \<Rightarrow> redisOptions" where
  "apply_all [] opts = opts"
| "apply_all (opt # rest) opts = apply_all rest (apply_RedisOption opt opts)"

text \<open>
  The first lines of \<^verbatim>\<open>NewRedisStore\<close>: \<^verbatim>\<open>opts := &redisOptions{}\<close>, the zero value of
  every field, and then the loop. The result is the resolved options the rest of the
  constructor reads.
\<close>

definition resolved_options :: "RedisOption list \<Rightarrow> redisOptions" where
  "resolved_options option_list =
     apply_all option_list \<lparr>namespace = [], clusterMode = False, enableTLS = False\<rparr>"

definition NewRedisStore ::
  "redisotel \<Rightarrow> string \<Rightarrow> string \<Rightarrow> RedisOption list \<Rightarrow> panic + UniversalClient RedisStore" where
  "NewRedisStore otel address password option_list =
     (let opts = resolved_options option_list;
          cl = (if clusterMode opts then
                  (let tlsConfig = (if enableTLS opts then Some \<lparr>MinVersion = VersionTLS12\<rparr>
                                    else None)
                   in NewClusterClient \<lparr>Addrs = [address], ClusterOptions_Password = password,
                                         ClusterOptions_TLSConfig = tlsConfig\<rparr>)
                else NewClient \<lparr>Addr = address, Options_Password = password, DB = 0,
                                Options_TLSConfig = None\<rparr>)
      in case InstrumentTracing otel cl of
           Some err \<Rightarrow> Inl (Panic err)
         | None \<Rightarrow>
             (case InstrumentMetrics otel cl of
                Some err \<Rightarrow> Inl (Panic err)
              | None \<Rightarrow> Inr \<lparr>client = cl, store_namespace = namespace opts\<rparr>))"

definition NewRedisStoreFromConfig ::
  "redisotel \<Rightarrow> RedisConfig \<Rightarrow> panic + UniversalClient RedisStore" where
  "NewRedisStoreFromConfig otel config =
     NewRedisStore otel (Address config) (Password config) (config_options config)"

subsection \<open>Test doubles\<close>

text \<open>
  The tests build a store around a mock client whose \<^verbatim>\<open>Set\<close> and \<^verbatim>\<open>Get\<close> return
  fixed results; the concrete instances below use the same.
\<close>

definition NewTestRedisStore :: "'c \<Rightarrow> string \<Rightarrow> 'c RedisStore" where
  "NewTestRedisStore c ns = \<lparr>client = c, store_namespace = ns\<rparr>"

definition mock_client ::
  "driver_error option \<Rightarrow> string \<times> driver_error option \<Rightarrow> (unit, unit) redisClient" where
  "mock_client set_result get_result =
     \<lparr>client_Set = (\<lambda>ctx key val expiry b. (set_result, b)),
      client_Get = (\<lambda>ctx key b. (get_result, b))\<rparr>"

definition no_calls :: "(unit, unit) world" where
  "no_calls = \<lparr>calls = [], backend = ()\<rparr>"

definition otel_accepts :: redisotel where
  "otel_accepts = \<lparr>InstrumentTracing = (\<lambda>c. None), InstrumentMetrics = (\<lambda>c. None)\<rparr>"

section \<open>Shared facts\<close>



lemma fst_invoke_Set:
  "fst (invoke_Set c ctx key val expiry w) = fst (client_Set c ctx key val expiry (backend w))"
  by (simp add: invoke_Set_def split: prod.split)

lemma fst_invoke_Get:
  "fst (invoke_Get c ctx key w) = fst (client_Get c ctx key (backend w))"
  by (simp add: invoke_Get_def split: prod.split)




lemma Hour_positive: "0 < sint Hour"
  by (simp add: Hour_def)

section \<open>Set\<close>

text \<open>
  C3. For every key \<open>k\<close> and value \<open>v\<close>, \<open>Set(k, v, 0)\<close> with expiry exactly zero fails
  with an InvalidExpiry error and never invokes the backend: the world, with its list of
  backend calls and the backend's state, is returned as it was.
\<close>

theorem Set_zero_expiry_InvalidExpiry:
  "Set s ctx k v 0 w = (Some InvalidExpiry, w)"
  by (simp add: Set_def NewInvalidExpiry_def)

theorem Set_zero_expiry_InvalidExpiry_witness:
  "Set (NewTestRedisStore (mock_client None (''value'', None)) []) () ''key'' ''value'' 0 no_calls
     = (Some InvalidExpiry, no_calls)"
  using Set_zero_expiry_InvalidExpiry
          [of "NewTestRedisStore (mock_client None (''value'', None)) []" "()" "''key''"
              "''value''" no_calls]
  by simp

text \<open>
  C2. \<open>Set\<close> requires an expiry strictly greater than zero: for every call with an expiry
  that is not strictly greater than zero, \<open>Set\<close> fails with an InvalidExpiry error and makes
  no backend call. The doc comment of \<^verbatim>\<open>Set\<close> says the same, but the code tests
  \<^verbatim>\<open>expiry == 0\<close> only. Evaluated at the expiry \<open>-1\<close>, which is not greater than zero, on a
  store without namespace whose backend accepts the SET: the backend is called and \<open>Set\<close>
  returns no error.
\<close>

theorem Set_negative_expiry_reaches_backend:
  "\<not> 0 < sint (- 1 :: Duration) \<and>
   Set (NewTestRedisStore (mock_client None (''value'', None)) []) () ''key'' ''value'' (- 1) no_calls
     = (None, \<lparr>calls = [SET () ''key'' ''value'' (- 1)], backend = ()\<rparr>)"
  by (simp add: Set_def NewTestRedisStore_def mock_client_def no_calls_def invoke_Set_def
      namespaceKey_def)

text \<open>
  C4. For every call \<open>Set(k, v, d)\<close> with \<open>d > 0\<close>: if the backend SET on the namespaced
  key succeeds, \<open>Set\<close> returns no error; if the backend SET fails for any reason, \<open>Set\<close>
  returns a SetError carrying the namespaced key and the underlying cause. In both cases
  the backend saw this one SET and is left in the state the SET produced.
\<close>

theorem Set_positive_expiry:
  "0 < sint d \<Longrightarrow>
     (\<forall>b'. client_Set (client s) ctx (namespaceKey s k) v d (backend w) = (None, b') \<longrightarrow>
        Set s ctx k v d w
          = (None, \<lparr>calls = calls w @ [SET ctx (namespaceKey s k) v d], backend = b'\<rparr>))
     \<and> (\<forall>cause b'.
          client_Set (client s) ctx (namespaceKey s k) v d (backend w) = (Some cause, b') \<longrightarrow>
          Set s ctx k v d w
            = (Some (SetError (namespaceKey s k) cause),
               \<lparr>calls = calls w @ [SET ctx (namespaceKey s k) v d], backend = b'\<rparr>))"
proof -
  assume "0 < sint d"
  then have "d \<noteq> 0" by auto
  then show ?thesis
    by (simp add: Set_def Let_def invoke_Set_def NewSetError_def)
qed

theorem Set_positive_expiry_witness:
  "0 < sint Hour
   \<and> client_Set (mock_client None (''value'', None)) () ''example:key'' ''value'' Hour ()
       = (None, ())
   \<and> Set (NewTestRedisStore (mock_client None (''value'', None)) ''example'') ()
          ''key'' ''value'' Hour no_calls
       = (None, \<lparr>calls = [SET () ''example:key'' ''value'' Hour], backend = ()\<rparr>)
   \<and> client_Set (mock_client (Some (Failure ''mock error'')) (''value'', None)) ()
          ''example:key'' ''value'' Hour ()
       = (Some (Failure ''mock error''), ())
   \<and> Set (NewTestRedisStore (mock_client (Some (Failure ''mock error'')) (''value'', None))
             ''example'') () ''key'' ''value'' Hour no_calls
       = (Some (SetError ''example:key'' (Failure ''mock error'')),
          \<lparr>calls = [SET () ''example:key'' ''value'' Hour], backend = ()\<rparr>)"
  using Set_positive_expiry
          [OF Hour_positive,
           of "NewTestRedisStore (mock_client None (''value'', None)) ''example''"
              "()" "''key''" "''value''" no_calls]
        Set_positive_expiry
          [OF Hour_positive,
           of "NewTestRedisStore (mock_client (Some (Failure ''mock error'')) (''value'', None))
                 ''example''"
              "()" "''key''" "''value''" no_calls]
        Hour_positive
  by (simp add: NewTestRedisStore_def no_calls_def mock_client_def namespaceKey_def
      namespaceSeparator_def)



section \<open>Get\<close>

text \<open>
  C5. For every key \<open>k\<close>, if the backend reports the namespaced key as absent (the driver's
  nil sentinel), \<open>Get(k)\<close> returns the empty string together with a KeyNotFound error
  carrying the namespaced key, whatever value came with the sentinel.
\<close>

theorem Get_absent_KeyNotFound:
  "client_Get (client s) ctx (namespaceKey s k) (backend w) = ((v, Some redis_Nil), b') \<Longrightarrow>
     Get s ctx k w
       = (([], Some (KeyNotFound (namespaceKey s k))),
          \<lparr>calls = calls w @ [GET ctx (namespaceKey s k)], backend = b'\<rparr>)"
  by (simp add: Get_def Let_def invoke_Get_def NewKeyNotFound_def)

theorem Get_absent_KeyNotFound_witness:
  "client_Get (mock_client None ([], Some redis_Nil)) () ''example:key'' ()
     = (([], Some redis_Nil), ())
   \<and> Get (NewTestRedisStore (mock_client None ([], Some redis_Nil)) ''example'') () ''key''
          no_calls
       = (([], Some (KeyNotFound ''example:key'')),
          \<lparr>calls = [GET () ''example:key''], backend = ()\<rparr>)"
  using Get_absent_KeyNotFound
          [of "NewTestRedisStore (mock_client None ([], Some redis_Nil)) ''example''"
              "()" "''key''" no_calls "[]" "()"]
  by (simp add: NewTestRedisStore_def no_calls_def mock_client_def namespaceKey_def
      namespaceSeparator_def)

text \<open>
  C6. For every key \<open>k\<close>, if the backend GET on the namespaced key succeeds with some value
  \<open>v\<close>, \<open>Get(k)\<close> returns exactly \<open>v\<close> unchanged and no error.
\<close>

theorem Get_success_returns_value:
  "client_Get (client s) ctx (namespaceKey s k) (backend w) = ((v, None), b') \<Longrightarrow>
     Get s ctx k w
       = ((v, None), \<lparr>calls = calls w @ [GET ctx (namespaceKey s k)], backend = b'\<rparr>)"
  by (simp add: Get_def Let_def invoke_Get_def)

theorem Get_success_returns_value_witness:
  "client_Get (mock_client None (''value'', None)) () ''example:key'' ()
     = ((''value'', None), ())
   \<and> Get (NewTestRedisStore (mock_client None (''value'', None)) ''example'') () ''key''
          no_calls
       = ((''value'', None), \<lparr>calls = [GET () ''example:key''], backend = ()\<rparr>)"
  using Get_success_returns_value
          [of "NewTestRedisStore (mock_client None (''value'', None)) ''example''"
              "()" "''key''" no_calls "''value''" "()"]
  by (simp add: NewTestRedisStore_def no_calls_def mock_client_def namespaceKey_def
      namespaceSeparator_def)

text \<open>
  C7. For every key \<open>k\<close>, if the backend GET on the namespaced key fails with any error
  other than the absence sentinel, \<open>Get(k)\<close> returns the empty string together with a
  GetError carrying the namespaced key and the underlying cause.
\<close>

theorem Get_failure_GetError:
  "client_Get (client s) ctx (namespaceKey s k) (backend w) = ((v, Some cause), b') \<Longrightarrow>
   cause \<noteq> redis_Nil \<Longrightarrow>
     Get s ctx k w
       = (([], Some (GetError (namespaceKey s k) cause)),
          \<lparr>calls = calls w @ [GET ctx (namespaceKey s k)], backend = b'\<rparr>)"
  by (simp add: Get_def Let_def invoke_Get_def NewGetError_def)

theorem Get_failure_GetError_witness:
  "client_Get (mock_client None (''stale'', Some (Failure ''mock error''))) () ''example:key'' ()
     = ((''stale'', Some (Failure ''mock error'')), ())
   \<and> Failure ''mock error'' \<noteq> redis_Nil
   \<and> Get (NewTestRedisStore (mock_client None (''stale'', Some (Failure ''mock error'')))
             ''example'') () ''key'' no_calls
       = (([], Some (GetError ''example:key'' (Failure ''mock error''))),
          \<lparr>calls = [GET () ''example:key''], backend = ()\<rparr>)"
  using Get_failure_GetError
          [of "NewTestRedisStore (mock_client None (''stale'', Some (Failure ''mock error'')))
                 ''example''"
              "()" "''key''" no_calls "''stale''" "Failure ''mock error''" "()"]
  by (simp add: NewTestRedisStore_def no_calls_def mock_client_def namespaceKey_def
      namespaceSeparator_def)

section \<open>Namespacing\<close>



section \<open>Construction\<close>

text \<open>
  C8. When cluster mode is disabled at construction, the client constructs a single-node
  backend connection with no TLS configuration, regardless of the TLS flag; when cluster
  mode is enabled and TLS is enabled, the cluster connection is configured with a minimum
  TLS protocol version requirement. The resolved options are the options applied in order
  to the zero value; the client named on the right is the one given to both
  instrumentation functions and, when both accept it, the one the store holds.
\<close>

theorem NewRedisStore_client_by_cluster_mode:
  "(\<not> clusterMode (apply_all option_list \<lparr>namespace = [], clusterMode = False, enableTLS = False\<rparr>) \<longrightarrow>
      NewRedisStore otel address password option_list =
        (case InstrumentTracing otel
                (NewClient \<lparr>Addr = address, Options_Password = password, DB = 0,
                            Options_TLSConfig = None\<rparr>) of
           Some err \<Rightarrow> Inl (Panic err)
         | None \<Rightarrow>
             (case InstrumentMetrics otel
                     (NewClient \<lparr>Addr = address, Options_Password = password, DB = 0,
                                 Options_TLSConfig = None\<rparr>) of
                Some err \<Rightarrow> Inl (Panic err)
              | None \<Rightarrow>
                  Inr \<lparr>client = NewClient \<lparr>Addr = address, Options_Password = password,
                                            DB = 0, Options_TLSConfig = None\<rparr>,
                       store_namespace =
                         namespace (apply_all option_list
                           \<lparr>namespace = [], clusterMode = False, enableTLS = False\<rparr>)\<rparr>)))
   \<and> (clusterMode (apply_all option_list \<lparr>namespace = [], clusterMode = False, enableTLS = False\<rparr>)
      \<and> enableTLS (apply_all option_list \<lparr>namespace = [], clusterMode = False, enableTLS = False\<rparr>) \<longrightarrow>
      NewRedisStore otel address password option_list =
        (case InstrumentTracing otel
                (NewClusterClient \<lparr>Addrs = [address], ClusterOptions_Password = password,
                   ClusterOptions_TLSConfig = Some \<lparr>MinVersion = VersionTLS12\<rparr>\<rparr>) of
           Some err \<Rightarrow> Inl (Panic err)
         | None \<Rightarrow>
             (case InstrumentMetrics otel
                     (NewClusterClient \<lparr>Addrs = [address], ClusterOptions_Password = password,
                        ClusterOptions_TLSConfig = Some \<lparr>MinVersion = VersionTLS12\<rparr>\<rparr>) of
                Some err \<Rightarrow> Inl (Panic err)
              | None \<Rightarrow>
                  Inr \<lparr>client =
                         NewClusterClient \<lparr>Addrs = [address], ClusterOptions_Password = password,
                           ClusterOptions_TLSConfig = Some \<lparr>MinVersion = VersionTLS12\<rparr>\<rparr>,
                       store_namespace =
                         namespace (apply_all option_list
                           \<lparr>namespace = [], clusterMode = False, enableTLS = False\<rparr>)\<rparr>)))"
  unfolding NewRedisStore_def resolved_options_def Let_def by (simp split: option.split)

theorem NewRedisStore_client_by_cluster_mode_witness:
  "\<not> clusterMode (apply_all [WithRedisTLS] \<lparr>namespace = [], clusterMode = False, enableTLS = False\<rparr>)
   \<and> enableTLS (apply_all [WithRedisTLS] \<lparr>namespace = [], clusterMode = False, enableTLS = False\<rparr>)
   \<and> NewRedisStore otel_accepts ''127.0.0.1:6379'' ''password'' [WithRedisTLS]
       = Inr \<lparr>client = NewClient \<lparr>Addr = ''127.0.0.1:6379'', Options_Password = ''password'',
                                  DB = 0, Options_TLSConfig = None\<rparr>,
              store_namespace = []\<rparr>
   \<and> clusterMode (apply_all [WithRedisClusterMode, WithRedisTLS]
                    \<lparr>namespace = [], clusterMode = False, enableTLS = False\<rparr>)
   \<and> enableTLS (apply_all [WithRedisClusterMode, WithRedisTLS]
                  \<lparr>namespace = [], clusterMode = False, enableTLS = False\<rparr>)
   \<and> NewRedisStore otel_accepts ''127.0.0.1:6379'' ''password''
         [WithRedisClusterMode, WithRedisTLS]
       = Inr \<lparr>client = NewClusterClient
                         \<lparr>Addrs = [''127.0.0.1:6379''], ClusterOptions_Password = ''password'',
                          ClusterOptions_TLSConfig = Some \<lparr>MinVersion = 0x0303\<rparr>\<rparr>,
              store_namespace = []\<rparr>"
  using NewRedisStore_client_by_cluster_mode
          [of "[WithRedisTLS]" otel_accepts "''127.0.0.1:6379''" "''password''"]
        NewRedisStore_client_by_cluster_mode
          [of "[WithRedisClusterMode, WithRedisTLS]" otel_accepts "''127.0.0.1:6379''"
              "''password''"]
  by (simp add: WithRedisTLS_def WithRedisClusterMode_def otel_accepts_def VersionTLS12_def)

text \<open>
  C10. When \<open>NewRedisStore\<close> is called with no options, the resolved options have cluster
  mode off, TLS off and an empty namespace, so a single-node backend client is
  constructed; \<open>NewRedisStoreFromConfig\<close> on a configuration with both disable flags false
  (the zero value among them) resolves to cluster mode on with TLS on, and builds a
  cluster client with the TLS configuration. The defaults are those of the constructor
  itself: \<open>resolved_options\<close> is what \<open>NewRedisStore\<close> reads, and each default shows in what
  the constructor builds. The empty namespace and the single-node client show with no
  options. A single-node client never carries a TLS configuration, so the TLS default
  shows with the cluster option alone: the cluster client is built without a TLS
  configuration.
\<close>

theorem NewRedisStore_defaults_differ_from_config:
  "resolved_options [] = \<lparr>namespace = [], clusterMode = False, enableTLS = False\<rparr>
   \<and> NewRedisStore otel address password [] =
        (case InstrumentTracing otel
                (NewClient \<lparr>Addr = address, Options_Password = password, DB = 0,
                            Options_TLSConfig = None\<rparr>) of
           Some err \<Rightarrow> Inl (Panic err)
         | None \<Rightarrow>
             (case InstrumentMetrics otel
                     (NewClient \<lparr>Addr = address, Options_Password = password, DB = 0,
                                 Options_TLSConfig = None\<rparr>) of
                Some err \<Rightarrow> Inl (Panic err)
              | None \<Rightarrow>
                  Inr \<lparr>client = NewClient \<lparr>Addr = address, Options_Password = password,
                                            DB = 0, Options_TLSConfig = None\<rparr>,
                       store_namespace = []\<rparr>))
   \<and> NewRedisStore otel address password [WithRedisClusterMode] =
        (case InstrumentTracing otel
                (NewClusterClient \<lparr>Addrs = [address], ClusterOptions_Password = password,
                   ClusterOptions_TLSConfig = None\<rparr>) of
           Some err \<Rightarrow> Inl (Panic err)
         | None \<Rightarrow>
             (case InstrumentMetrics otel
                     (NewClusterClient \<lparr>Addrs = [address], ClusterOptions_Password = password,
                        ClusterOptions_TLSConfig = None\<rparr>) of
                Some err \<Rightarrow> Inl (Panic err)
              | None \<Rightarrow>
                  Inr \<lparr>client =
                         NewClusterClient \<lparr>Addrs = [address], ClusterOptions_Password = password,
                           ClusterOptions_TLSConfig = None\<rparr>,
                       store_namespace = []\<rparr>))
   \<and> resolved_options
         (config_options \<lparr>Address = a, Password = p, Namespace = n,
                           DisableClusterMode = False, DisableTLS = False\<rparr>)
       = \<lparr>namespace = n, clusterMode = True, enableTLS = True\<rparr>
   \<and> NewRedisStoreFromConfig otel
         \<lparr>Address = a, Password = p, Namespace = n,
          DisableClusterMode = False, DisableTLS = False\<rparr> =
        (case InstrumentTracing otel
                (NewClusterClient \<lparr>Addrs = [a], ClusterOptions_Password = p,
                   ClusterOptions_TLSConfig = Some \<lparr>MinVersion = VersionTLS12\<rparr>\<rparr>) of
           Some err \<Rightarrow> Inl (Panic err)
         | None \<Rightarrow>
             (case InstrumentMetrics otel
                     (NewClusterClient \<lparr>Addrs = [a], ClusterOptions_Password = p,
                        ClusterOptions_TLSConfig = Some \<lparr>MinVersion = VersionTLS12\<rparr>\<rparr>) of
                Some err \<Rightarrow> Inl (Panic err)
              | None \<Rightarrow>
                  Inr \<lparr>client =
                         NewClusterClient \<lparr>Addrs = [a], ClusterOptions_Password = p,
                           ClusterOptions_TLSConfig = Some \<lparr>MinVersion = VersionTLS12\<rparr>\<rparr>,
                       store_namespace = n\<rparr>))"
  unfolding NewRedisStore_def NewRedisStoreFromConfig_def resolved_options_def
    config_options_def Let_def WithRedisNamespace_def WithRedisClusterMode_def WithRedisTLS_def
  by (simp split: option.split)

theorem NewRedisStore_defaults_differ_from_config_witness:
  "resolved_options [] = \<lparr>namespace = [], clusterMode = False, enableTLS = False\<rparr>
   \<and> NewRedisStore otel_accepts ''127.0.0.1:6379'' ''password'' []
     = Inr \<lparr>client = NewClient \<lparr>Addr = ''127.0.0.1:6379'', Options_Password = ''password'',
                                DB = 0, Options_TLSConfig = None\<rparr>,
            store_namespace = []\<rparr>
   \<and> NewRedisStore otel_accepts ''127.0.0.1:6379'' ''password'' [WithRedisClusterMode]
     = Inr \<lparr>client = NewClusterClient
                       \<lparr>Addrs = [''127.0.0.1:6379''], ClusterOptions_Password = ''password'',
                        ClusterOptions_TLSConfig = None\<rparr>,
            store_namespace = []\<rparr>
   \<and> resolved_options
         (config_options \<lparr>Address = [], Password = [], Namespace = [],
                           DisableClusterMode = False, DisableTLS = False\<rparr>)
       = \<lparr>namespace = [], clusterMode = True, enableTLS = True\<rparr>
   \<and> NewRedisStoreFromConfig otel_accepts
         \<lparr>Address = [], Password = [], Namespace = [],
          DisableClusterMode = False, DisableTLS = False\<rparr>
     = Inr \<lparr>client = NewClusterClient
                       \<lparr>Addrs = [[]], ClusterOptions_Password = [],
                        ClusterOptions_TLSConfig = Some \<lparr>MinVersion = 0x0303\<rparr>\<rparr>,
            store_namespace = []\<rparr>"
  using NewRedisStore_defaults_differ_from_config
          [of otel_accepts "''127.0.0.1:6379''" "''password''" "[]" "[]" "[]"]
  by (simp add: otel_accepts_def VersionTLS12_def)

end
